theory Spec2Isabelle
  imports Main "HOL-Library.Sublist" "HOL-Library.Char_ord" "HOL-Library.AList"
begin

section \<open>Go library primitives used by the relay\<close>

text \<open>
  Go strings are byte sequences and \<open>len\<close> counts bytes; they are modelled as
  \<open>string\<close> (a list of 8-bit characters). \<open>strings.HasPrefix s p\<close> is
  \<open>prefix p s\<close>. A Go pointer or slice that the code tests against \<open>nil\<close> is an
  \<open>option\<close>; ranging over a nil slice visits nothing.
\<close>

definition slice :: "'a list option \<Rightarrow> 'a list" where
  "slice xs = (case xs of None \<Rightarrow> [] | Some ys \<Rightarrow> ys)"

definition HasPrefix :: "string \<Rightarrow> string \<Rightarrow> bool" where
  "HasPrefix s p = prefix p s"

text \<open>\<open>slices.ContainsFunc\<close> and the repository's \<open>sliceAllFunc\<close> (utils.go).\<close>

definition ContainsFunc :: "'a list \<Rightarrow> ('a \<Rightarrow> bool) \<Rightarrow> bool" where
  "ContainsFunc vs f = list_ex f vs"

definition sliceAllFunc :: "'a list \<Rightarrow> ('a \<Rightarrow> bool) \<Rightarrow> bool" where
  "sliceAllFunc vs f = (\<not> ContainsFunc vs (\<lambda>v. \<not> f v))"

text \<open>\<open>strings.Split s sep\<close> for a one-byte separator.\<close>

fun Split :: "string \<Rightarrow> char \<Rightarrow> string list" where
  "Split [] c = [[]]"
| "Split (x # xs) c =
     (if x = c then [] # Split xs c
      else (case Split xs c of [] \<Rightarrow> [[x]] | y # ys \<Rightarrow> (x # y) # ys))"

text \<open>
  \<open>strconv.ParseInt s 10 64\<close>: an optional sign, then one or more decimal digits; the
  value must fit a signed 64-bit integer. \<open>None\<close> stands for the returned error.
\<close>

definition isDigit :: "char \<Rightarrow> bool" where
  "isDigit c = (CHR ''0'' \<le> c \<and> c \<le> CHR ''9'')"

fun digitsVal :: "string \<Rightarrow> int \<Rightarrow> int" where
  "digitsVal [] acc = acc"
| "digitsVal (c # cs) acc = digitsVal cs (acc * 10 + (of_char c - of_char CHR ''0''))"

definition ParseInt :: "string \<Rightarrow> int option" where
  "ParseInt s =
     (case s of
        [] \<Rightarrow> None
      | c # cs \<Rightarrow>
          (let neg = (c = CHR ''-'');
               ds = (if c = CHR ''+'' \<or> c = CHR ''-'' then cs else s)
           in if ds = [] \<or> \<not> list_all isDigit ds then None
              else (let un = digitsVal ds 0
                    in if \<not> neg \<and> un \<ge> 9223372036854775808 then None
                       else if neg \<and> un > 9223372036854775808 then None
                       else Some (if neg then - un else un))))"

section \<open>Events and request filters (data\_structure.go, package mocrelay)\<close>

type_synonym Tag = "string list"

record Event =
  ID :: string
  Pubkey :: string
  CreatedAt :: int
  Kind :: int
  Tags :: "Tag list option"
  Content :: string
  Sig :: string

record ReqFilter =
  IDs :: "string list option"
  Authors :: "string list option"
  Kinds :: "int list option"
  FTags :: "(string \<times> string list option) list option"
  Since :: "int option"
  Until :: "int option"
  Limit :: "int option"

text \<open>
  \<open>validHexString\<close> (utils.go) ranges over the runes of the string; every rune that
  passes the test is a single ASCII byte, and a byte above 127 never decodes to such a
  rune, so the test is the same on bytes.
\<close>

definition validHexString :: "string \<Rightarrow> bool" where
  "validHexString s =
     (if length s = 0 then False
      else list_all (\<lambda>r. (CHR ''0'' \<le> r \<and> r \<le> CHR ''9'') \<or> (CHR ''a'' \<le> r \<and> r \<le> CHR ''f'')) s)"

definition validID :: "string \<Rightarrow> bool" where
  "validID id' = (length id' = 64 \<and> validHexString id')"

definition validPubkey :: "string \<Rightarrow> bool" where
  "validPubkey pubkey = (length pubkey = 64 \<and> validHexString pubkey)"

definition validKind :: "int \<Rightarrow> bool" where
  "validKind kind = (0 \<le> kind \<or> kind \<le> 65535)"

definition validTag :: "Tag \<Rightarrow> bool" where
  "validTag tag = (case tag of [] \<Rightarrow> False | t # _ \<Rightarrow> t \<noteq> [])"

definition validSig :: "string \<Rightarrow> bool" where
  "validSig sig = (length sig = 128 \<and> validHexString sig)"

definition validNaddr :: "string \<Rightarrow> bool" where
  "validNaddr naddr =
     (case Split naddr CHR '':'' of
        [e0, e1, e2] \<Rightarrow>
          (case ParseInt e0 of
             None \<Rightarrow> False
           | Some kind \<Rightarrow> if \<not> validKind kind then False else validPubkey e1)
      | _ \<Rightarrow> False)"

definition Event_Valid :: "Event option \<Rightarrow> bool" where
  "Event_Valid ev =
     (case ev of
        None \<Rightarrow> False
      | Some e \<Rightarrow>
          validID (ID e) \<and> validPubkey (Pubkey e) \<and> validKind (Kind e) \<and>
          Tags e \<noteq> None \<and> sliceAllFunc (slice (Tags e)) validTag \<and> validSig (Sig e))"

definition isTagLetter :: "char \<Rightarrow> bool" where
  "isTagLetter c = ((CHR ''A'' \<le> c \<and> c \<le> CHR ''Z'') \<or> (CHR ''a'' \<le> c \<and> c \<le> CHR ''z''))"

definition validTagEntry :: "string \<times> string list option \<Rightarrow> bool" where
  "validTagEntry kv =
     (case kv of (tag, vals) \<Rightarrow>
        (case tag of
           [c0, c1] \<Rightarrow>
             if c0 \<noteq> CHR ''#'' \<or> \<not> isTagLetter c1 then False
             else (case vals of
                     None \<Rightarrow> False
                   | Some vs \<Rightarrow>
                       if tag = ''#e'' then sliceAllFunc vs validID
                       else if tag = ''#p'' then sliceAllFunc vs validPubkey
                       else if tag = ''#a'' then sliceAllFunc vs validNaddr
                       else True)
         | _ \<Rightarrow> False))"

definition ReqFilter_Valid :: "ReqFilter option \<Rightarrow> bool" where
  "ReqFilter_Valid fo =
     (case fo of
        None \<Rightarrow> False
      | Some fil \<Rightarrow>
          (case IDs fil of None \<Rightarrow> True | Some ids \<Rightarrow> sliceAllFunc ids validID) \<and>
          (case Authors fil of None \<Rightarrow> True | Some authors \<Rightarrow> sliceAllFunc authors validPubkey) \<and>
          (case Kinds fil of None \<Rightarrow> True | Some ks \<Rightarrow> sliceAllFunc ks validKind) \<and>
          (case FTags fil of None \<Rightarrow> True | Some ts \<Rightarrow> list_all validTagEntry ts) \<and>
          (case Since fil of None \<Rightarrow> True | Some s \<Rightarrow> \<not> s < 0) \<and>
          (case Until fil of None \<Rightarrow> True | Some u \<Rightarrow> \<not> u < 0) \<and>
          (case (Since fil, Until fil) of (Some s, Some u) \<Rightarrow> \<not> s > u | _ \<Rightarrow> True) \<and>
          (case Limit fil of None \<Rightarrow> True | Some l \<Rightarrow> \<not> l < 0))"

section \<open>Counted matchers (utils.go, package nostr)\<close>

text \<open>
  The matcher reads the filter through pointers (\<open>m.f.IDs != nil\<close>, \<open>*m.f.IDs\<close>); the
  declaration of that filter type is the one above with every field behind a pointer, so
  \<open>None\<close> is the nil pointer. The key of a tag entry is a string and the code reads its
  second byte, \<open>string(tag[1])\<close>: on a key shorter than two bytes Go panics with an index
  out of range, which is the result \<open>None\<close> below. Converting a byte to a string gives
  the UTF-8 encoding of the code point of that value.
\<close>

definition byteToString :: "char \<Rightarrow> string" where
  "byteToString b =
     (let n = (of_char b :: nat)
      in if n < 128 then [b] else [char_of (192 + n div 64), char_of (128 + n mod 64)])"

fun ContainsFuncP :: "'a list \<Rightarrow> ('a \<Rightarrow> bool option) \<Rightarrow> bool option" where
  "ContainsFuncP [] g = Some False"
| "ContainsFuncP (x # xs) g =
     (case g x of None \<Rightarrow> None | Some b \<Rightarrow> if b then Some True else ContainsFuncP xs g)"

definition tagArrMatch :: "string \<Rightarrow> string \<Rightarrow> Tag \<Rightarrow> bool option" where
  "tagArrMatch tag v tagArr =
     (case tagArr of
        [] \<Rightarrow> Some False
      | t0 # rest \<Rightarrow>
          (case tag of
             _ # c1 # _ \<Rightarrow>
               Some (t0 = byteToString c1 \<and>
                     (case rest of [] \<Rightarrow> True | t1 # _ \<Rightarrow> HasPrefix t1 v))
           | _ \<Rightarrow> None))"

definition tagEntryMatch :: "Event \<Rightarrow> string \<times> string list option \<Rightarrow> bool option" where
  "tagEntryMatch event kv =
     (case kv of (tag, vs) \<Rightarrow>
        ContainsFuncP (slice vs) (\<lambda>v. ContainsFuncP (slice (Tags event)) (tagArrMatch tag v)))"

text \<open>
  The loop \<open>for tag, vs := range *m.f.Tags\<close>; the list gives the order in which the map
  is visited. \<open>match && ...\<close> does not evaluate its right side once \<open>match\<close> is false.
\<close>

fun tagsLoop :: "(string \<times> string list option) list \<Rightarrow> Event \<Rightarrow> bool \<Rightarrow> bool option" where
  "tagsLoop [] event match = Some match"
| "tagsLoop (kv # rest) event match =
     (if \<not> match then tagsLoop rest event False
      else (case tagEntryMatch event kv of
              None \<Rightarrow> None
            | Some b \<Rightarrow> tagsLoop rest event b))"

record ReqFilterEventMatcher =
  m_cnt :: int
  m_f :: ReqFilter


text \<open>
  \<open>Match\<close> reads the matcher's filter only; \<open>filterMatch\<close> is its body as a function
  of that filter.
\<close>

definition filterMatch :: "ReqFilter \<Rightarrow> Event \<Rightarrow> bool option" where
  "filterMatch fl event =
     (let match = True;
          match = (case IDs fl of None \<Rightarrow> match
                   | Some ids \<Rightarrow> match \<and> ContainsFunc ids (\<lambda>i. HasPrefix (ID event) i));
          match = (case Kinds fl of None \<Rightarrow> match
                   | Some ks \<Rightarrow> match \<and> ContainsFunc ks (\<lambda>kind. Kind event = kind));
          match = (case Authors fl of None \<Rightarrow> match
                   | Some aus \<Rightarrow> match \<and> ContainsFunc aus (\<lambda>author. HasPrefix (Pubkey event) author))
      in case (case FTags fl of None \<Rightarrow> Some match | Some ts \<Rightarrow> tagsLoop ts event match) of
           None \<Rightarrow> None
         | Some match \<Rightarrow>
             (let match = (case Since fl of None \<Rightarrow> match | Some s \<Rightarrow> match \<and> s \<le> CreatedAt event);
                  match = (case Until fl of None \<Rightarrow> match | Some u \<Rightarrow> match \<and> CreatedAt event \<le> u)
              in Some match))"




definition Matcher_Done :: "ReqFilterEventMatcher \<Rightarrow> bool" where
  "Matcher_Done m = (case Limit (m_f m) of None \<Rightarrow> False | Some l \<Rightarrow> l \<le> m_cnt m)"

text \<open>\<open>EventCountMatchers\<close>, a slice of matchers, each behind its own pointer.\<close>

type_synonym EventCountMatchers = "ReqFilterEventMatcher list"






fun DoneLoop :: "EventCountMatchers \<Rightarrow> bool \<Rightarrow> bool" where
  "DoneLoop [] done' = done'"
| "DoneLoop (mm # ms) done' = DoneLoop ms (done' \<and> Matcher_Done mm)"

definition Matchers_Done :: "EventCountMatchers \<Rightarrow> bool" where
  "Matchers_Done m = DoneLoop m True"

section \<open>Filters of package main (req\_filter.go, entity.go)\<close>

text \<open>
  \<open>FilterJSON\<close> keeps every field behind a pointer. A \<open>*Filter\<close> wraps the pointer to
  its \<open>FilterJSON\<close>; the predicates test \<open>fil == nil\<close>, so they take an option. The
  \<open>*Event\<close> they read embeds an \<open>EventJSON\<close> with the seven fields of \<open>Event\<close>.
\<close>

record FilterJSON =
  IDsJ :: "string list option"
  AuthorsJ :: "string list option"
  KindsJ :: "int list option"
  Etags :: "string list option"
  Ptags :: "string list option"
  SinceJ :: "int option"
  UntilJ :: "int option"
  LimitJ :: "int option"

type_synonym Filter = FilterJSON

definition MatchIDs :: "Filter option \<Rightarrow> Event \<Rightarrow> bool" where
  "MatchIDs fil event =
     (case fil of None \<Rightarrow> True
      | Some fj \<Rightarrow> (case IDsJ fj of None \<Rightarrow> True
                    | Some ids \<Rightarrow> list_ex (\<lambda>p. HasPrefix (ID event) p) ids))"

definition MatchAuthors :: "Filter option \<Rightarrow> Event \<Rightarrow> bool" where
  "MatchAuthors fil event =
     (case fil of None \<Rightarrow> True
      | Some fj \<Rightarrow> (case AuthorsJ fj of None \<Rightarrow> True
                    | Some aus \<Rightarrow> list_ex (\<lambda>p. HasPrefix (Pubkey event) p) aus))"

definition MatchKinds :: "Filter option \<Rightarrow> Event \<Rightarrow> bool" where
  "MatchKinds fil event =
     (case fil of None \<Rightarrow> True
      | Some fj \<Rightarrow> (case KindsJ fj of None \<Rightarrow> True
                    | Some ks \<Rightarrow> list_ex (\<lambda>k. Kind event = k) ks))"

definition tagHas :: "string \<Rightarrow> string \<Rightarrow> Tag \<Rightarrow> bool" where
  "tagHas name i tag =
     (case tag of t0 # t1 # _ \<Rightarrow> t0 = name \<and> HasPrefix t1 i | _ \<Rightarrow> False)"

definition MatchEtags :: "Filter option \<Rightarrow> Event \<Rightarrow> bool" where
  "MatchEtags fil event =
     (case fil of None \<Rightarrow> True
      | Some fj \<Rightarrow> (case Etags fj of None \<Rightarrow> True
                    | Some ids \<Rightarrow> list_ex (\<lambda>i. list_ex (tagHas ''e'' i) (slice (Tags event))) ids))"

definition MatchPtags :: "Filter option \<Rightarrow> Event \<Rightarrow> bool" where
  "MatchPtags fil event =
     (case fil of None \<Rightarrow> True
      | Some fj \<Rightarrow> (case Ptags fj of None \<Rightarrow> True
                    | Some ids \<Rightarrow> list_ex (\<lambda>i. list_ex (tagHas ''p'' i) (slice (Tags event))) ids))"

definition MatchSince :: "Filter option \<Rightarrow> Event \<Rightarrow> bool" where
  "MatchSince fil event =
     (case fil of None \<Rightarrow> True
      | Some fj \<Rightarrow> (case SinceJ fj of None \<Rightarrow> True | Some s \<Rightarrow> CreatedAt event > s))"

definition MatchUntil :: "Filter option \<Rightarrow> Event \<Rightarrow> bool" where
  "MatchUntil fil event =
     (case fil of None \<Rightarrow> True
      | Some fj \<Rightarrow> (case UntilJ fj of None \<Rightarrow> True | Some u \<Rightarrow> CreatedAt event < u))"

definition Filter_Match :: "Filter option \<Rightarrow> Event \<Rightarrow> bool" where
  "Filter_Match fil event =
     (MatchIDs fil event \<and> MatchAuthors fil event \<and> MatchKinds fil event \<and>
      MatchEtags fil event \<and> MatchPtags fil event \<and> MatchSince fil event \<and>
      MatchUntil fil event)"

text \<open>
  \<open>FilterCounter\<close> embeds the \<open>*Filter\<close> and reads its limit without a nil test, so it
  holds the filter itself.
\<close>

record FilterCounter =
  fc_Filter :: Filter
  fc_count :: int

definition NewFilterCounter :: "Filter \<Rightarrow> FilterCounter" where
  "NewFilterCounter fil = \<lparr>fc_Filter = fil, fc_count = 0\<rparr>"

definition FilterCounter_Done :: "FilterCounter \<Rightarrow> bool" where
  "FilterCounter_Done fil =
     (case LimitJ (fc_Filter fil) of None \<Rightarrow> False | Some l \<Rightarrow> fc_count fil \<ge> l)"

definition FilterCounter_Match :: "FilterCounter \<Rightarrow> Event \<Rightarrow> bool \<times> FilterCounter" where
  "FilterCounter_Match fil event =
     (if FilterCounter_Done fil then (False, fil)
      else if Filter_Match (Some (fc_Filter fil)) event
           then (True, fil\<lparr>fc_count := fc_count fil + 1\<rparr>)
           else (False, fil))"

type_synonym FiltersCounter = "FilterCounter list"

definition NewFiltersCounter :: "Filter list \<Rightarrow> FiltersCounter" where
  "NewFiltersCounter fils = map NewFilterCounter fils"



subsection \<open>Building filters from a subscribe\<close>

text \<open>
  Errors are values. \<open>errors.Join\<close> drops nil arguments and wraps the others in one error
  that holds them in order; \<open>errors.As\<close> looks for a \<open>*ReqFilterMinPrefixError\<close> anywhere
  inside. Messages built with \<open>fmt.Errorf\<close> from pointers keep their fixed part only.
\<close>

datatype error =
    ErrorString string
  | ReqFilterMinPrefixError string int
  | JoinError "error list"













subsection \<open>Sequences of calls\<close>




section \<open>Parsing an event (data\_structure.go, package mocrelay)\<close>

text \<open>
  \<open>Event.UnmarshalJSON\<close> hands its bytes to the decoder of \<open>encoding/json\<close> with
  \<open>UseNumber\<close>. The model starts from the JSON document those bytes denote: a number
  keeps its literal (\<open>json.Number\<close>), an object keeps its members in order, repeated
  names included. Decoding an object into a Go map keeps the last value of a repeated
  name; the map is an association list with distinct keys.
\<close>

datatype json =
    JNull
  | JBool bool
  | JNumber string
  | JString string
  | JArray "json list"
  | JObject "(string \<times> json) list"











section \<open>Serving a client EVENT message (relay.go, entity.go, package main)\<close>

text \<open>
  The hash, the hex decoder, the Schnorr parser and verifier and the JSON encoder are
  library calls; they are the fields of \<open>Lib\<close>. The cache and the router are not part of
  these files: \<open>Save\<close> and \<open>Publish\<close> are parameters acting on their states. \<open>now\<close> is
  the clock in nanoseconds; a \<open>time.Duration\<close> saturates at the 64-bit bounds. The
  Prometheus counters are left out; they are written and never read here.
\<close>

record ('pk, 'sg) Lib =
  Marshal :: "string \<times> int \<times> int \<times> Tag list option \<times> string \<Rightarrow> error + string"
  Sum256 :: "string \<Rightarrow> string"
  DecodeString :: "string \<Rightarrow> error + string"
  ParsePubKey :: "string \<Rightarrow> error + 'pk"
  ParseSignature :: "string \<Rightarrow> error + 'sg"
  SigVerify :: "'sg \<Rightarrow> string \<Rightarrow> 'pk \<Rightarrow> bool"

definition Serialize :: "('pk, 'sg) Lib \<Rightarrow> Event option \<Rightarrow> error + string" where
  "Serialize lib e =
     (case e of
        None \<Rightarrow> Inl (ErrorString ''empty event json cannot be serialized'')
      | Some ev \<Rightarrow>
          (case Marshal lib (Pubkey ev, CreatedAt ev, Kind ev, Tags ev, Content ev) of
             Inl err \<Rightarrow> Inl (ErrorString ''failed to serialize event'')
           | Inr res \<Rightarrow> Inr res))"

definition Verify :: "('pk, 'sg) Lib \<Rightarrow> Event option \<Rightarrow> error + bool" where
  "Verify lib e =
     (case e of
        None \<Rightarrow> Inl (ErrorString ''empty event cannot be verified'')
      | Some ev \<Rightarrow>
          (case Serialize lib e of
             Inl err \<Rightarrow> Inl (ErrorString ''failed to serialize event'')
           | Inr ser \<Rightarrow>
          (let hash = Sum256 lib ser in
           case DecodeString lib (ID ev) of
             Inl err \<Rightarrow> Inl (ErrorString ''invalid event id'')
           | Inr idBin \<Rightarrow>
               if hash \<noteq> idBin then Inr False
               else
          (case DecodeString lib (Pubkey ev) of
             Inl err \<Rightarrow> Inl (ErrorString ''failed to decode public key'')
           | Inr pKeyBin \<Rightarrow>
          (case ParsePubKey lib pKeyBin of
             Inl err \<Rightarrow> Inl (ErrorString ''failed to parse public key'')
           | Inr pKey \<Rightarrow>
          (case DecodeString lib (Sig ev) of
             Inl err \<Rightarrow> Inl (ErrorString ''invalid event sig'')
           | Inr sigBin \<Rightarrow>
          (case ParseSignature lib sigBin of
             Inl err \<Rightarrow> Inl (ErrorString ''failed to parse event sig'')
           | Inr sg \<Rightarrow> Inr (SigVerify lib sg hash pKey))))))))"

definition maxDuration :: int where
  "maxDuration = 9223372036854775807"

definition minDuration :: int where
  "minDuration = - 9223372036854775808"

definition timeUntil :: "int \<Rightarrow> Event \<Rightarrow> int" where
  "timeUntil now ev =
     (let d = CreatedAt ev * 1000000000 - now
      in if d < minDuration then minDuration else if d > maxDuration then maxDuration else d)"

definition ValidCreatedAt :: "int \<Rightarrow> Event \<Rightarrow> bool" where
  "ValidCreatedAt now ev =
     (let sub = timeUntil now ev
      in - 10 * (60 * 1000000000) \<le> sub \<and> sub \<le> 5 * (60 * 1000000000))"

datatype ServerMsg =
    ServerEventMsg string Event
  | ServerEOSEMsg string
  | ServerNoticeMsg string
  | ServerOKMsg string bool string string

definition ServerOKMsgPrefixInvalid :: string where
  "ServerOKMsgPrefixInvalid = ''invalid: ''"

definition serveClientEventMsgJSON ::
  "('pk, 'sg) Lib \<Rightarrow> int \<Rightarrow> (Event \<Rightarrow> 'c \<Rightarrow> 'c) \<Rightarrow> (Event \<Rightarrow> 'r \<Rightarrow> error option \<times> 'r) \<Rightarrow>
   'r \<Rightarrow> 'c \<Rightarrow> Event option \<Rightarrow> error option \<times> 'r \<times> 'c" where
  "serveClientEventMsgJSON lib now Save Publish router cache msg =
     (case Verify lib msg of
        Inl err \<Rightarrow> (Some (ErrorString ''failed to verify event json''), router, cache)
      | Inr ok \<Rightarrow>
          if \<not> ok then (Some (ErrorString ''invalid signature''), router, cache)
          else
            (case msg of
               None \<Rightarrow> (Some (ErrorString ''failed to verify event json''), router, cache)
             | Some event \<Rightarrow>
                 if \<not> ValidCreatedAt now event
                 then (Some (ErrorString ''invalid created_at''), router, cache)
                 else
                   (let cache' = Save event cache in
                    case Publish event router of
                      (Some err, router') \<Rightarrow>
                        (Some (ErrorString ''failed to publish event''), router', cache')
                    | (None, router') \<Rightarrow> (None, router', cache'))))"

text \<open>
  The branch of \<open>wsReceiver\<close> for a client EVENT message: the handler gets the router
  and the cache, not the connection's \<open>sender\<close> channel; an error is logged and the loop
  goes on.
\<close>

record ('r, 'c) Conn =
  conn_router :: 'r
  conn_cache :: 'c
  conn_sender :: "ServerMsg list"
  conn_log :: "string list"

definition receiveEventMsg ::
  "('pk, 'sg) Lib \<Rightarrow> int \<Rightarrow> (Event \<Rightarrow> 'c \<Rightarrow> 'c) \<Rightarrow> (Event \<Rightarrow> 'r \<Rightarrow> error option \<times> 'r) \<Rightarrow>
   ('r, 'c) Conn \<Rightarrow> Event option \<Rightarrow> ('r, 'c) Conn" where
  "receiveEventMsg lib now Save Publish conn msg =
     (case serveClientEventMsgJSON lib now Save Publish (conn_router conn) (conn_cache conn) msg of
        (err, router', cache') \<Rightarrow>
          conn\<lparr>conn_router := router', conn_cache := cache',
               conn_log := (case err of
                              None \<Rightarrow> conn_log conn
                            | Some e \<Rightarrow> conn_log conn @ [''failed to serve client event msg''])\<rparr>)"

section \<open>The random-evict cache (data\_structure.go, package mocrelay)\<close>

text \<open>
  The Go map is an association list with distinct keys. When the cache is full,
  \<open>for k = range c.c { break }\<close> takes the first key of an iteration whose order the
  runtime chooses; \<open>pick\<close> is that choice. On an empty map the loop body never runs
  and \<open>delete\<close> of the zero key removes nothing.
\<close>

record ('k, 'v) randCache =
  rc_Cap :: int
  rc_c :: "('k \<times> 'v) list"

definition newRandCache :: "int \<Rightarrow> ('k, 'v) randCache" where
  "newRandCache capacity = \<lparr>rc_Cap = capacity, rc_c = []\<rparr>"

definition randCache_Get :: "('k, 'v) randCache \<Rightarrow> 'k \<Rightarrow> 'v option" where
  "randCache_Get cache key = map_of (rc_c cache) key"

definition evictOne :: "nat \<Rightarrow> ('k \<times> 'v) list \<Rightarrow> ('k \<times> 'v) list" where
  "evictOne pick entries =
     (if entries = [] then entries
      else AList.delete (fst (entries ! (pick mod length entries))) entries)"

definition randCache_Set ::
  "('k, 'v) randCache \<Rightarrow> 'k \<Rightarrow> 'v \<Rightarrow> nat \<Rightarrow> bool \<times> ('k, 'v) randCache" where
  "randCache_Set cache key val pick =
     (if map_of (rc_c cache) key \<noteq> None then (False, cache)
      else
        (let entries = (if int (length (rc_c cache)) \<ge> rc_Cap cache
                        then evictOne pick (rc_c cache) else rc_c cache)
         in (True, cache\<lparr>rc_c := AList.update key val entries\<rparr>)))"

datatype ('k, 'v) cacheOp = OpSet 'k 'v nat | OpGet 'k

fun cacheRun :: "('k, 'v) randCache \<Rightarrow> ('k, 'v) cacheOp list \<Rightarrow> ('k, 'v) randCache" where
  "cacheRun cache [] = cache"
| "cacheRun cache (OpSet key val pick # ops) = cacheRun (snd (randCache_Set cache key val pick)) ops"
| "cacheRun cache (OpGet key # ops) = cacheRun cache ops"

text \<open>What every reachable cache satisfies: the keys are distinct and at most \<open>Cap\<close>.\<close>

definition cacheInv :: "('k, 'v) randCache \<Rightarrow> bool" where
  "cacheInv cache \<longleftrightarrow> distinct (map fst (rc_c cache)) \<and> int (length (rc_c cache)) \<le> rc_Cap cache"

section \<open>The skip list (data\_structure.go, package mocrelay)\<close>

text \<open>
  Nodes live in a store and a pointer is an index into it; \<open>None\<close> is the nil pointer and
  the head is node 0. The head's key and value are the zero values of their types, which
  \<open>newSkipList\<close> takes as arguments here. Used by one goroutine the locks do nothing. A
  read outside the store or outside a node's \<open>Nexts\<close> panics in Go and gives \<open>None\<close>;
  so does a walk that never ends.
\<close>

definition skipListMaxHeight :: nat where
  "skipListMaxHeight = 16"

record ('k, 'v) skipListNode =
  nK :: 'k
  nV :: 'v
  Nexts :: "nat option list"

record ('k, 'v) skipList =
  Cmp :: "'k \<Rightarrow> 'k \<Rightarrow> int"
  store :: "('k, 'v) skipListNode list"
  sl_len :: int

definition Head :: nat where
  "Head = 0"

definition newSkipList :: "('k \<Rightarrow> 'k \<Rightarrow> int) \<Rightarrow> 'k \<Rightarrow> 'v \<Rightarrow> ('k, 'v) skipList" where
  "newSkipList cmp zeroK zeroV =
     \<lparr>Cmp = cmp,
      store = [\<lparr>nK = zeroK, nV = zeroV, Nexts = replicate skipListMaxHeight None\<rparr>],
      sl_len = 0\<rparr>"

definition nodeAt :: "('k, 'v) skipList \<Rightarrow> nat \<Rightarrow> ('k, 'v) skipListNode option" where
  "nodeAt l a = (if a < length (store l) then Some (store l ! a) else None)"

definition nextAt :: "nat option list \<Rightarrow> nat \<Rightarrow> nat option option" where
  "nextAt nexts h = (if h < length nexts then Some (nexts ! h) else None)"

definition skipList_Len :: "('k, 'v) skipList \<Rightarrow> int" where
  "skipList_Len l = sl_len l"

text \<open>The inner loop of \<open>Find\<close> at height \<open>h\<close>: it returns the node it stops at.\<close>

partial_function (option) findWalk ::
  "('k, 'v) skipList \<Rightarrow> 'k \<Rightarrow> nat \<Rightarrow> nat \<Rightarrow> nat option" where
  "findWalk l k h node =
     (case nodeAt l node of
        None \<Rightarrow> None
      | Some n \<Rightarrow>
          (case nextAt (Nexts n) h of
             None \<Rightarrow> None
           | Some None \<Rightarrow> Some node
           | Some (Some next) \<Rightarrow>
               (case nodeAt l next of
                  None \<Rightarrow> None
                | Some nx \<Rightarrow>
                    if Cmp l (nK nx) k > 0 then Some node else findWalk l k h next)))"

declare findWalk.simps [code]

text \<open>
  The outer loop, with \<open>n\<close> heights still to visit (\<open>h = n - 1\<close> next). The result is
  the pair \<open>(v, ok)\<close>; a bare \<open>return\<close> gives the zero value and \<open>false\<close>.
\<close>

fun findLevels ::
  "('k, 'v) skipList \<Rightarrow> 'v \<Rightarrow> 'k \<Rightarrow> nat \<Rightarrow> nat \<Rightarrow> ('v \<times> bool) option" where
  "findLevels l zeroV k 0 node = Some (zeroV, False)"
| "findLevels l zeroV k (Suc h) node =
     (case findWalk l k h node of
        None \<Rightarrow> None
      | Some node' \<Rightarrow>
          (case nodeAt l node' of
             None \<Rightarrow> None
           | Some n \<Rightarrow>
               if Cmp l (nK n) k = 0
               then (if node' = Head then Some (zeroV, False) else Some (nV n, True))
               else findLevels l zeroV k h node'))"

definition skipList_Find :: "('k, 'v) skipList \<Rightarrow> 'v \<Rightarrow> 'k \<Rightarrow> ('v \<times> bool) option" where
  "skipList_Find l zeroV k = findLevels l zeroV k skipListMaxHeight Head"

text \<open>
  \<open>tryAdd\<close>: the inner loop returns the node it stops at with the copy of its \<open>Nexts\<close>;
  the outer loop fills \<open>switched\<close> (index \<open>h\<close> of the list is \<open>switched[h]\<close>) or finds the
  key present.
\<close>

type_synonym skipListStackEntry = "nat \<times> nat option list"

partial_function (option) addWalk ::
  "('k, 'v) skipList \<Rightarrow> 'k \<Rightarrow> nat \<Rightarrow> nat \<Rightarrow> skipListStackEntry option" where
  "addWalk l k h node =
     (case nodeAt l node of
        None \<Rightarrow> None
      | Some n \<Rightarrow>
          (case nextAt (Nexts n) h of
             None \<Rightarrow> None
           | Some None \<Rightarrow> Some (node, Nexts n)
           | Some (Some next) \<Rightarrow>
               (case nodeAt l next of
                  None \<Rightarrow> None
                | Some nx \<Rightarrow>
                    if Cmp l (nK nx) k \<ge> 0 then Some (node, Nexts n) else addWalk l k h next)))"

declare addWalk.simps [code]

datatype addSearch = KeyPresent | Switched "skipListStackEntry list"

fun addLevels ::
  "('k, 'v) skipList \<Rightarrow> 'k \<Rightarrow> nat \<Rightarrow> nat \<Rightarrow> skipListStackEntry list \<Rightarrow> addSearch option" where
  "addLevels l k 0 node switched = Some (Switched switched)"
| "addLevels l k (Suc h) node switched =
     (case addWalk l k h node of
        None \<Rightarrow> None
      | Some (node', nexts) \<Rightarrow>
          (case nextAt nexts h of
             None \<Rightarrow> None
           | Some None \<Rightarrow> addLevels l k h node' ((node', nexts) # switched)
           | Some (Some next) \<Rightarrow>
               (case nodeAt l next of
                  None \<Rightarrow> None
                | Some nx \<Rightarrow>
                    if Cmp l (nK nx) k = 0 then Some KeyPresent
                    else addLevels l k h node' ((node', nexts) # switched))))"

text \<open>\<open>newHeight\<close> from the 32-bit random number \<open>n\<close>.\<close>

fun Len16 :: "nat \<Rightarrow> nat" where
  "Len16 x = (if x = 0 then 0 else Suc (Len16 (x div 2)))"

declare Len16.simps [simp del]

definition LeadingZeros16 :: "nat \<Rightarrow> nat" where
  "LeadingZeros16 x = 16 - Len16 x"

definition newHeight :: "nat \<Rightarrow> nat" where
  "newHeight n = LeadingZeros16 (or n 1 mod 2 ^ 16) + 1"

text \<open>
  \<open>tryAddInsert\<close>: the first loop compares every predecessor's \<open>Nexts\<close> with the copy
  taken during the search, the second links the new node in, from the top height down.
\<close>

fun unchangedLevels :: "('k, 'v) skipList \<Rightarrow> skipListStackEntry list \<Rightarrow> nat \<Rightarrow> bool option" where
  "unchangedLevels l switched 0 = Some True"
| "unchangedLevels l switched (Suc h) =
     (if h < length switched
      then (case nodeAt l (fst (switched ! h)) of
              None \<Rightarrow> None
            | Some n \<Rightarrow>
                if Nexts n \<noteq> snd (switched ! h) then Some False
                else unchangedLevels l switched h)
      else None)"

fun linkLevels ::
  "('k, 'v) skipListNode list \<Rightarrow> skipListStackEntry list \<Rightarrow> nat \<Rightarrow> nat \<Rightarrow>
   ('k, 'v) skipListNode list option" where
  "linkLevels st switched new 0 = Some st"
| "linkLevels st switched new (Suc h) =
     (if h < length switched \<and> fst (switched ! h) < length st \<and> new < length st
      then (let p = fst (switched ! h); pn = st ! p; nn = st ! new
            in if h < length (Nexts pn) \<and> h < length (Nexts nn)
               then linkLevels
                      (st[new := nn\<lparr>Nexts := (Nexts nn)[h := Nexts pn ! h]\<rparr>,
                          p := pn\<lparr>Nexts := (Nexts pn)[h := Some new]\<rparr>])
                      switched new h
               else None)
      else None)"

definition tryAddInsert ::
  "('k, 'v) skipList \<Rightarrow> ('k, 'v) skipListNode \<Rightarrow> skipListStackEntry list \<Rightarrow>
   (bool \<times> ('k, 'v) skipList) option" where
  "tryAddInsert l newNode switched =
     (case unchangedLevels l switched (length (Nexts newNode)) of
        None \<Rightarrow> None
      | Some unchanged \<Rightarrow>
          if \<not> unchanged then Some (False, l)
          else (case linkLevels (store l @ [newNode]) switched (length (store l))
                       (length (Nexts newNode)) of
                  None \<Rightarrow> None
                | Some st \<Rightarrow> Some (True, l\<lparr>store := st\<rparr>)))"

definition tryAdd ::
  "('k, 'v) skipList \<Rightarrow> 'k \<Rightarrow> 'v \<Rightarrow> nat \<Rightarrow> (bool \<times> bool \<times> ('k, 'v) skipList) option" where
  "tryAdd l k v rnd =
     (case addLevels l k skipListMaxHeight Head [] of
        None \<Rightarrow> None
      | Some KeyPresent \<Rightarrow> Some (False, True, l)
      | Some (Switched switched) \<Rightarrow>
          (case tryAddInsert l \<lparr>nK = k, nV = v, Nexts = replicate (newHeight rnd) None\<rparr> switched of
             None \<Rightarrow> None
           | Some (ok, l') \<Rightarrow> Some (True, ok, l')))"

text \<open>
  \<open>Add\<close> tries again until \<open>tryAdd\<close> reports \<open>ok\<close>. The random source is the sequence
  \<open>rnd\<close>; try number \<open>i\<close> draws \<open>rnd i\<close> when it reaches the insertion.
\<close>

partial_function (option) addLoop ::
  "('k, 'v) skipList \<Rightarrow> 'k \<Rightarrow> 'v \<Rightarrow> (nat \<Rightarrow> nat) \<Rightarrow> nat \<Rightarrow> (bool \<times> ('k, 'v) skipList) option" where
  "addLoop l k v rnd i =
     (case tryAdd l k v (rnd i) of
        None \<Rightarrow> None
      | Some (added, ok, l') \<Rightarrow>
          if ok then Some (added, if added then l'\<lparr>sl_len := sl_len l' + 1\<rparr> else l')
          else addLoop l' k v rnd (Suc i))"

declare addLoop.simps [code]

definition skipList_Add ::
  "('k, 'v) skipList \<Rightarrow> 'k \<Rightarrow> 'v \<Rightarrow> (nat \<Rightarrow> nat) \<Rightarrow> (bool \<times> ('k, 'v) skipList) option" where
  "skipList_Add l k v rnd = addLoop l k v rnd 0"

text \<open>\<open>cmp.Compare\<close> on integers, a total comparison.\<close>

definition Compare :: "int \<Rightarrow> int \<Rightarrow> int" where
  "Compare x y = (if x < y then - 1 else if x > y then 1 else 0)"

section \<open>Verification\<close>

subsection \<open>Kind range\<close>

lemma validKind_always: "validKind kind"
  unfolding validKind_def by arith

text \<open>
  C4. Validity checking is meant to enforce the kind range \<open>[0, 65535]\<close>. The test
  \<open>validKind\<close> joins its two bounds with "or", so it holds for every integer: an event of
  kind 70000 that is otherwise well formed is valid, and so is a filter whose kinds list
  holds 70000 or a negative kind.
\<close>

theorem C4_kind_range_not_enforced:
  "validKind 70000 \<and> validKind (- 1) \<and>
   Event_Valid (Some \<lparr>ID = replicate 64 CHR ''a'', Pubkey = replicate 64 CHR ''b'',
                       CreatedAt = 0, Kind = 70000, Tags = Some [], Content = [],
                       Sig = replicate 128 CHR ''c''\<rparr>) \<and>
   ReqFilter_Valid (Some \<lparr>IDs = None, Authors = None, Kinds = Some [70000, - 1],
                           FTags = None, Since = None, Until = None, Limit = None\<rparr>)"
  by code_simp

subsection \<open>Time bounds\<close>

lemma filterMatch_since_inclusive:
  "filterMatch \<lparr>IDs = None, Authors = None, Kinds = None, FTags = None,
                Since = Some s, Until = None, Limit = None\<rparr> event = Some (s \<le> CreatedAt event)"
  by (simp add: filterMatch_def)

lemma filterMatch_until_inclusive:
  "filterMatch \<lparr>IDs = None, Authors = None, Kinds = None, FTags = None,
                Since = None, Until = Some u, Limit = None\<rparr> event = Some (CreatedAt event \<le> u)"
  by (simp add: filterMatch_def)

text \<open>
  C1. The bounds \<open>since\<close> and \<open>until\<close> are meant to be inclusive. The matcher of package
  nostr compares with \<open>\<le>\<close>; \<open>MatchSince\<close> and \<open>MatchUntil\<close> of package main compare
  strictly, so an event created exactly at the bound (here at second 10) is rejected by
  them and accepted by the matcher.
\<close>

theorem C1_bounds_strict_in_main:
  "\<not> MatchSince (Some \<lparr>IDsJ = None, AuthorsJ = None, KindsJ = None, Etags = None, Ptags = None,
                         SinceJ = Some 10, UntilJ = None, LimitJ = None\<rparr>)
        \<lparr>ID = [], Pubkey = [], CreatedAt = 10, Kind = 1, Tags = Some [], Content = [], Sig = []\<rparr> \<and>
   \<not> MatchUntil (Some \<lparr>IDsJ = None, AuthorsJ = None, KindsJ = None, Etags = None, Ptags = None,
                         SinceJ = None, UntilJ = Some 10, LimitJ = None\<rparr>)
        \<lparr>ID = [], Pubkey = [], CreatedAt = 10, Kind = 1, Tags = Some [], Content = [], Sig = []\<rparr> \<and>
   filterMatch \<lparr>IDs = None, Authors = None, Kinds = None, FTags = None,
                Since = Some 10, Until = Some 10, Limit = None\<rparr>
        \<lparr>ID = [], Pubkey = [], CreatedAt = 10, Kind = 1, Tags = Some [], Content = [], Sig = []\<rparr>
     = Some True"
  by (simp add: MatchSince_def MatchUntil_def filterMatch_def)

subsection \<open>Counted matchers\<close>






lemma FilterCounter_count_mono:
  "fc_count fil \<le> fc_count (snd (FilterCounter_Match fil event)) \<and>
   fc_Filter (snd (FilterCounter_Match fil event)) = fc_Filter fil"
  by (simp add: FilterCounter_Match_def)




subsection \<open>Sets of counted matchers\<close>













subsection \<open>The skip list\<close>

lemma Len16_32769: "Len16 32769 = 16"
  by (simp add: Len16.simps)

lemma newHeight_32768: "newHeight 32768 = 1"
  by (simp add: newHeight_def LeadingZeros16_def Len16_32769)

lemma addWalk_empty:
  "h < 16 \<Longrightarrow> addWalk (newSkipList cmp zk zv) k h Head = Some (Head, replicate 16 None)"
  by (subst addWalk.simps)
     (simp add: nodeAt_def nextAt_def newSkipList_def Head_def skipListMaxHeight_def)

lemma addLevels_empty:
  "n \<le> 16 \<Longrightarrow>
   addLevels (newSkipList cmp zk zv) k n Head sw =
     Some (Switched (replicate n (Head, replicate 16 None) @ sw))"
proof (induction n arbitrary: sw)
  case 0
  then show ?case by simp
next
  case (Suc n)
  then have "n < 16" by simp
  then show ?case
    using Suc.IH [of "(Head, replicate 16 None) # sw"]
    by (simp add: addWalk_empty nextAt_def replicate_app_Cons_same)
qed

lemma tryAdd_empty_height1:
  "tryAdd (newSkipList cmp zk zv) k v 32768 =
     Some (True, True,
           \<lparr>Cmp = cmp,
            store = [\<lparr>nK = zk, nV = zv, Nexts = Some 1 # replicate 15 None\<rparr>,
                     \<lparr>nK = k, nV = v, Nexts = [None]\<rparr>],
            sl_len = 0\<rparr>)"
proof -
  have sw: "addLevels (newSkipList cmp zk zv) k skipListMaxHeight Head [] =
              Some (Switched (replicate 16 (Head, replicate 16 None)))"
    using addLevels_empty [of 16 cmp zk zv k "[]"] by (simp add: skipListMaxHeight_def)
  have r16: "replicate 16 (None :: nat option) = None # replicate 15 None"
    by (simp add: numeral_eq_Suc)
  show ?thesis
    unfolding tryAdd_def sw
    by (simp add: newHeight_32768 tryAddInsert_def nodeAt_def newSkipList_def Head_def
        skipListMaxHeight_def r16)
qed

lemma Add_empty_height1:
  "skipList_Add (newSkipList cmp zk zv) k v (\<lambda>i. 32768) =
     Some (True,
           \<lparr>Cmp = cmp,
            store = [\<lparr>nK = zk, nV = zv, Nexts = Some 1 # replicate 15 None\<rparr>,
                     \<lparr>nK = k, nV = v, Nexts = [None]\<rparr>],
            sl_len = 1\<rparr>)"
  unfolding skipList_Add_def
  by (subst addLoop.simps) (simp add: tryAdd_empty_height1)

lemma findWalk_top:
  "findWalk \<lparr>Cmp = cmp,
            store = [\<lparr>nK = zk, nV = zv, Nexts = Some 1 # replicate 15 None\<rparr>,
                     \<lparr>nK = k, nV = v, Nexts = [None]\<rparr>],
            sl_len = n\<rparr> k' 15 Head = Some Head"
  by (subst findWalk.simps) (simp add: nodeAt_def nextAt_def Head_def)

lemma Find_zero_key:
  assumes "cmp zk k' = 0"
  shows "skipList_Find \<lparr>Cmp = cmp,
            store = [\<lparr>nK = zk, nV = zv, Nexts = Some 1 # replicate 15 None\<rparr>,
                     \<lparr>nK = k, nV = v, Nexts = [None]\<rparr>],
            sl_len = n\<rparr> zv' k' = Some (zv', False)"
proof -
  have h: "skipListMaxHeight = Suc 15" by (simp add: skipListMaxHeight_def)
  show ?thesis
    unfolding skipList_Find_def h findLevels.simps findWalk_top
    using assms by (simp add: nodeAt_def Head_def)
qed

text \<open>
  C10. After a successful \<open>Add k v\<close>, \<open>Find k\<close> is meant to return \<open>(v, true)\<close>. On an
  empty list with integer keys compared by \<open>cmp.Compare\<close>, \<open>Add 0 ''a''\<close> (the random
  number 32768 gives the new node height 1) returns true and the length becomes 1, but
  \<open>Find 0\<close> returns the zero value and false: at height 15 the walk stays at the head,
  whose key is the zero value 0, the comparison with the head's key gives 0, and \<open>Find\<close>
  returns at once because the node is the head.
\<close>

theorem C10_find_misses_zero_key:
  "(case skipList_Add (newSkipList Compare 0 []) 0 ''a'' (\<lambda>i. 32768) of
      None \<Rightarrow> False
    | Some (added, l) \<Rightarrow>
        added \<and> skipList_Len l = 1 \<and> skipList_Find l [] 0 = Some ([], False))"
proof -
  have z: "Compare 0 0 = 0" by (simp add: Compare_def)
  show ?thesis
    by (simp only: Add_empty_height1 option.case prod.case skipList_Len_def
          Find_zero_key [where cmp = Compare and zk = 0 and k' = 0, OF z])
       simp
qed

subsection \<open>The random-evict cache\<close>

lemma length_delete_present:
  "distinct (map fst al) \<Longrightarrow> k \<in> fst ` set al \<Longrightarrow>
   Suc (length (AList.delete k al)) = length al"
proof (induction al)
  case Nil
  then show ?case by simp
next
  case (Cons kv al)
  show ?case
  proof (cases "fst kv = k")
    case True
    with Cons.prems have "k \<notin> fst ` set al" by auto
    then have "AList.delete k al = al"
      by (simp add: AList.delete_eq filter_id_conv) (auto simp: image_iff)
    with True show ?thesis by (cases kv) (simp add: AList.delete_eq)
  next
    case False
    with Cons show ?thesis by (cases kv) (auto simp: AList.delete_eq)
  qed
qed

lemma length_update_absent:
  "k \<notin> fst ` set al \<Longrightarrow> length (AList.update k v al) = Suc (length al)"
  by (induction al) auto

lemma evictOne_length:
  assumes "distinct (map fst entries)" "entries \<noteq> []"
  shows "Suc (length (evictOne pick entries)) = length entries"
proof -
  have "pick mod length entries < length entries" using assms(2) by simp
  then have "fst (entries ! (pick mod length entries)) \<in> fst ` set entries"
    by (metis imageI nth_mem)
  then show ?thesis
    using assms by (simp add: evictOne_def length_delete_present)
qed

lemma evictOne_distinct:
  "distinct (map fst entries) \<Longrightarrow> distinct (map fst (evictOne pick entries))"
  by (simp add: evictOne_def distinct_delete)

lemma evictOne_absent:
  "key \<notin> fst ` set entries \<Longrightarrow> key \<notin> fst ` set (evictOne pick entries)"
  by (auto simp: evictOne_def AList.delete_eq)

lemma randCache_Set_inv:
  assumes "cacheInv cache" "1 \<le> rc_Cap cache"
  shows "cacheInv (snd (randCache_Set cache key val pick)) \<and>
         rc_Cap (snd (randCache_Set cache key val pick)) = rc_Cap cache"
proof (cases "map_of (rc_c cache) key")
  case (Some v)
  with assms show ?thesis by (simp add: randCache_Set_def)
next
  case None
  then have absent: "key \<notin> fst ` set (rc_c cache)"
    by (simp add: map_of_eq_None_iff)
  have d: "distinct (map fst (rc_c cache))" and le: "int (length (rc_c cache)) \<le> rc_Cap cache"
    using assms(1) by (simp_all add: cacheInv_def)
  show ?thesis
  proof (cases "int (length (rc_c cache)) \<ge> rc_Cap cache")
    case True
    with assms(2) have ne: "rc_c cache \<noteq> []" by auto
    have "Suc (length (evictOne pick (rc_c cache))) = length (rc_c cache)"
      using d ne by (rule evictOne_length)
    moreover have "key \<notin> fst ` set (evictOne pick (rc_c cache))"
      using absent by (rule evictOne_absent)
    ultimately show ?thesis
      using None True le d
      by (simp add: randCache_Set_def cacheInv_def length_update_absent distinct_update evictOne_distinct)
  next
    case False
    then show ?thesis
      using None absent d
      by (simp add: randCache_Set_def cacheInv_def length_update_absent distinct_update)
  qed
qed

lemma cacheRun_inv:
  "cacheInv cache \<Longrightarrow> 1 \<le> rc_Cap cache \<Longrightarrow>
   cacheInv (cacheRun cache ops) \<and> rc_Cap (cacheRun cache ops) = rc_Cap cache"
proof (induction ops arbitrary: cache)
  case Nil
  then show ?case by simp
next
  case (Cons op ops)
  show ?case
  proof (cases op)
    case (OpSet key val pick)
    from randCache_Set_inv [OF Cons.prems, of key val pick]
    show ?thesis using Cons.IH [of "snd (randCache_Set cache key val pick)"] Cons.prems OpSet
      by simp
  next
    case (OpGet key)
    then show ?thesis using Cons by simp
  qed
qed

text \<open>
  C9. For every capacity of at least 1 and every sequence of \<open>Set\<close> and \<open>Get\<close> calls
  on a new cache, whatever victims the runtime picks, the number of stored entries never
  exceeds the capacity; and \<open>Set\<close> on a key that is present returns false and leaves
  the cache as it was, stored value included.
\<close>

theorem C9_cache_bounded:
  "(1 \<le> capacity \<longrightarrow>
      int (card (dom (map_of (rc_c (cacheRun (newRandCache capacity) ops))))) \<le> capacity \<and>
      int (length (rc_c (cacheRun (newRandCache capacity) ops))) \<le> capacity) \<and>
   (randCache_Get cache key \<noteq> None \<longrightarrow> randCache_Set cache key val pick = (False, cache))"
proof -
  have a: "int (card (dom (map_of (rc_c (cacheRun (newRandCache capacity) ops))))) \<le> capacity \<and>
      int (length (rc_c (cacheRun (newRandCache capacity) ops))) \<le> capacity" if "1 \<le> capacity"
  proof -
    have "cacheInv (newRandCache capacity :: ('a, 'b) randCache)"
      using that by (simp add: cacheInv_def newRandCache_def)
    then have inv: "cacheInv (cacheRun (newRandCache capacity) ops)"
      and cap: "rc_Cap (cacheRun (newRandCache capacity) ops) = capacity"
      using cacheRun_inv [of "newRandCache capacity" ops] that
      by (simp_all add: newRandCache_def)
    have "card (dom (map_of (rc_c (cacheRun (newRandCache capacity) ops)))) =
          length (rc_c (cacheRun (newRandCache capacity) ops))"
      using inv by (simp add: cacheInv_def dom_map_of_conv_image_fst distinct_card [symmetric]
          del: distinct_card) (metis distinct_card length_map list.set_map)
    then show ?thesis using inv cap by (simp add: cacheInv_def)
  qed
  have b: "randCache_Get cache key \<noteq> None \<longrightarrow> randCache_Set cache key val pick = (False, cache)"
    by (simp add: randCache_Get_def randCache_Set_def)
  from a b show ?thesis by blast
qed

theorem C9_cache_bounded_witness:
  "(1::int) \<le> 2 \<and>
   int (length (rc_c (cacheRun (newRandCache 2 :: (int, string) randCache)
          [OpSet 1 ''a'' 0, OpSet 2 ''b'' 0, OpSet 3 ''c'' 0, OpGet 1]))) \<le> 2 \<and>
   randCache_Get \<lparr>rc_Cap = 2, rc_c = [(2 :: int, ''b''), (3, ''c'')]\<rparr> 3 \<noteq> None \<and>
   randCache_Set \<lparr>rc_Cap = 2, rc_c = [(2 :: int, ''b''), (3, ''c'')]\<rparr> 3 ''d'' 5 =
     (False, \<lparr>rc_Cap = 2, rc_c = [(2, ''b''), (3, ''c'')]\<rparr>)"
  using C9_cache_bounded
    [where capacity = 2
       and ops = "[OpSet (1 :: int) ''a'' 0, OpSet 2 ''b'' 0, OpSet 3 ''c'' 0, OpGet 1]"
       and cache = "\<lparr>rc_Cap = 2, rc_c = [(2 :: int, ''b''), (3, ''c'')]\<rparr>"
       and key = 3 and val = "''d''" and pick = 5]
  by (simp add: randCache_Get_def)

subsection \<open>Parsing an event\<close>















subsection \<open>Tag entries\<close>













subsection \<open>Building filters from a subscribe\<close>










subsection \<open>Serving a client EVENT message\<close>



lemma receive_sender:
  "conn_sender (receiveEventMsg lib now Save Publish conn msg) = conn_sender conn"
  by (simp add: receiveEventMsg_def split: prod.splits)




end
